theory Spec2Isabelle
  imports Complex_Main
begin

section \<open>JavaScript values\<close>

text \<open>
  A JavaScript number is an IEEE double. The program only compares numbers with zero, asks
  whether they are finite and tests their truthiness, so a finite double is read as the
  real number it denotes (both zeros are \<open>Fin 0\<close>) and the three special values are
  kept apart.
\<close>

datatype jsnum = Fin real | PosInf | NegInf | NaN

text \<open>
  The values the handlers see: what \<open>JSON.parse\<close> produces, \<open>undefined\<close> (a missing
  property), and the built-in functions that a plain object inherits from
  \<open>Object.prototype\<close> (\<open>JFun\<close>, by name). An object is its table of own properties;
  a lookup takes the first binding of a key.
\<close>

datatype jsval =
    JUndefined
  | JNull
  | JBool bool
  | JNum jsnum
  | JStr string
  | JArr "jsval list"
  | JObj "(string \<times> jsval) list"
  | JFun string

text \<open>Truthiness, as \<open>!x\<close> and \<open>x || y\<close> test it.\<close>

fun truthy :: "jsval \<Rightarrow> bool" where
  "truthy JUndefined = False"
| "truthy JNull = False"
| "truthy (JBool b) = b"
| "truthy (JNum (Fin r)) = (r \<noteq> 0)"
| "truthy (JNum NaN) = False"
| "truthy (JNum PosInf) = True"
| "truthy (JNum NegInf) = True"
| "truthy (JStr s) = (s \<noteq> [])"
| "truthy (JArr xs) = True"
| "truthy (JObj kvs) = True"
| "truthy (JFun f) = True"

text \<open>\<open>a || b\<close>\<close>

definition js_or :: "jsval \<Rightarrow> jsval \<Rightarrow> jsval" where
  "js_or a b = (if truthy a then a else b)"

text \<open>Own-property lookup in a property table; a missing key reads as \<open>undefined\<close>.\<close>

definition own_get :: "(string \<times> jsval) list \<Rightarrow> string \<Rightarrow> jsval" where
  "own_get kvs k = (case map_of kvs k of None \<Rightarrow> JUndefined | Some v \<Rightarrow> v)"

text \<open>
  Writing an own property: an existing key keeps its place and takes the new value, a new
  key is appended (the property order of a JavaScript object).
\<close>

fun own_put :: "(string \<times> jsval) list \<Rightarrow> string \<Rightarrow> jsval \<Rightarrow> (string \<times> jsval) list" where
  "own_put [] k v = [(k, v)]"
| "own_put ((k', v') # kvs) k v = (if k' = k then (k, v) # kvs else (k', v') # own_put kvs k v)"

text \<open>
  \<open>value.prop\<close> on a value parsed from JSON, for a property name that no prototype
  defines (\<open>ticker\<close>, \<open>last\<close> and the four fields of a create request):
  \<open>null\<close> and \<open>undefined\<close> throw a TypeError (\<open>None\<close>), an object gives its own
  property, every other value gives \<open>undefined\<close>.
\<close>

fun get_prop :: "jsval \<Rightarrow> string \<Rightarrow> jsval option" where
  "get_prop JNull k = None"
| "get_prop JUndefined k = None"
| "get_prop (JObj kvs) k = Some (own_get kvs k)"
| "get_prop v k = Some JUndefined"

text \<open>\<open>value?.prop\<close>: \<open>null\<close> and \<open>undefined\<close> short-circuit to \<open>undefined\<close>.\<close>

fun get_prop_opt :: "jsval \<Rightarrow> string \<Rightarrow> jsval" where
  "get_prop_opt (JObj kvs) k = own_get kvs k"
| "get_prop_opt v k = JUndefined"

subsection \<open>\<open>JSON.stringify\<close>, as \<open>c.json\<close> applies it\<close>

text \<open>
  A property whose value is \<open>undefined\<close> or a function is left out of the serialised
  object; inside an array such a value, like a non-finite number, is written \<open>null\<close>.
  The body of a response is the value a client parses back.
\<close>

fun omitted :: "jsval \<Rightarrow> bool" where
  "omitted JUndefined = True"
| "omitted (JFun f) = True"
| "omitted v = False"

fun stringify :: "jsval \<Rightarrow> jsval" where
  "stringify (JObj kvs) =
     JObj (map (\<lambda>kv. (fst kv, stringify (snd kv))) (filter (\<lambda>kv. \<not> omitted (snd kv)) kvs))"
| "stringify (JArr xs) = JArr (map (\<lambda>x. if omitted x then JNull else stringify x) xs)"
| "stringify (JNum (Fin r)) = JNum (Fin r)"
| "stringify (JNum n) = JNull"
| "stringify v = v"

record response =
  status :: nat
  body :: jsval

text \<open>\<open>c.json(value, status)\<close>; the status defaults to 200.\<close>

definition c_json :: "jsval \<Rightarrow> nat \<Rightarrow> response" where
  "c_json v st = \<lparr>status = st, body = stringify v\<rparr>"

section \<open>The runtime and the external collaborators\<close>

text \<open>
  Everything a \<open>try\<close> block of the program can catch. The text of each error is the
  runtime's or the library's, so the environment supplies it (\<open>error_message\<close>).
\<close>

datatype thrown =
    InvalidURL string            \<comment> \<open>\<open>new URL(s)\<close> on a string that is no absolute URL\<close>
  | KeyResolutionFailed          \<comment> \<open>\<open>jwtVerify\<close>: the key set could not be fetched or parsed\<close>
  | TokenRejected                \<comment> \<open>\<open>jwtVerify\<close>: malformed token, bad signature, issuer, expiry\<close>
  | D1Fault                      \<comment> \<open>the database statement failed\<close>
  | D1TypeError jsval            \<comment> \<open>\<open>bind\<close> refused a value\<close>
  | D1NotNull string             \<comment> \<open>a NOT NULL column was given NULL\<close>
  | FetchFailed                  \<comment> \<open>\<open>fetch\<close> could not reach the provider\<close>
  | BodyNotJSON                  \<comment> \<open>\<open>.json()\<close> on a body that is not JSON\<close>
  | NullRead string              \<comment> \<open>a property of \<open>null\<close> was read or destructured\<close>

text \<open>The response of the market-data provider: \<open>response.ok\<close> and the parsed body.\<close>

record http_response =
  ok :: bool
  json :: "jsval option"    \<comment> \<open>\<open>None\<close>: the body is not JSON and \<open>.json()\<close> throws\<close>

text \<open>What D1 makes of a JavaScript value bound to a TEXT column or compared with one.\<close>

datatype bound = Rejected | BoundNull | BoundText string

text \<open>
  The environment of one request: the deployment's bindings and the behaviour of the
  libraries and services outside the repository (the URL parser, jose's \<open>jwtVerify\<close>,
  \<open>fetch\<close>, D1 and the runtime's conversions).
\<close>

record env =
  ISSUER :: string                          \<comment> \<open>\<open>CLERK_ISSUER_URL\<close>, \<open>KEYCLOAK_ISSUER\<close>\<close>
  TIINGO_API_TOKEN :: string
  url_parses :: "string \<Rightarrow> bool"             \<comment> \<open>whether \<open>new URL(s)\<close> returns\<close>
  jwtVerify :: "string \<Rightarrow> string \<Rightarrow> string \<Rightarrow> thrown + (string \<times> jsval) list"
      \<comment> \<open>token, key-set URL, expected issuer: an error thrown or the decoded payload\<close>
  fetch :: "string \<Rightarrow> string \<Rightarrow> http_response option"
      \<comment> \<open>URL and Authorization header; \<open>None\<close>: the request itself failed\<close>
  d1_fault :: bool                          \<comment> \<open>the database is unavailable\<close>
  d1_coerce :: "jsval \<Rightarrow> bound"              \<comment> \<open>\<open>bind\<close> on numbers, booleans, arrays, objects\<close>
  id_of_text :: "string \<Rightarrow> int option"
      \<comment> \<open>the integer SQLite compares an INTEGER column with, for a text parameter\<close>
  to_string :: "jsval \<Rightarrow> string"            \<comment> \<open>\<open>String(v)\<close> on numbers, arrays, objects\<close>
  error_message :: "thrown \<Rightarrow> string"       \<comment> \<open>\<open>error.message\<close>\<close>

text \<open>
  The calls that can leave the worker: a verification against the key set published at a
  URL (jose fetches it while verifying) and a request to the market-data provider.
\<close>

datatype call = VerifyWithKeySet string | Fetch string

subsection \<open>The holdings table (\<open>schema.sql\<close>)\<close>

record holding =
  hid :: int             \<comment> \<open>column \<open>id\<close>\<close>
  user_id :: string
  symbol :: string
  name :: string
  shares :: real
  avg_price :: real

record database =
  holdings :: "holding list"     \<comment> \<open>the rows, in rowid order\<close>
  last_row_id :: int             \<comment> \<open>AUTOINCREMENT: the largest id ever given\<close>

text \<open>What a handler leaves behind: the reply (or the error that escapes it), the outbound calls it made, and the database.\<close>

record outcome =
  reply :: "thrown + response"
  calls :: "call list"
  db :: database

definition respond :: "database \<Rightarrow> call list \<Rightarrow> response \<Rightarrow> outcome" where
  "respond d cs r = \<lparr>reply = Inr r, calls = cs, db = d\<rparr>"

text \<open>\<open>bind(v)\<close> for a TEXT column.\<close>

fun d1_bind :: "env \<Rightarrow> jsval \<Rightarrow> bound" where
  "d1_bind e (JStr s) = BoundText s"
| "d1_bind e JNull = BoundNull"
| "d1_bind e JUndefined = Rejected"
| "d1_bind e (JFun f) = Rejected"
| "d1_bind e v = d1_coerce e v"

text \<open>The row as the JavaScript object that D1 returns for \<open>SELECT *\<close>.\<close>

definition holding_obj :: "holding \<Rightarrow> (string \<times> jsval) list" where
  "holding_obj h =
     [(''id'', JNum (Fin (of_int (hid h)))),
      (''user_id'', JStr (user_id h)),
      (''symbol'', JStr (symbol h)),
      (''name'', JStr (name h)),
      (''shares'', JNum (Fin (shares h))),
      (''avg_price'', JNum (Fin (avg_price h)))]"

text \<open>\<open>SELECT * FROM holdings WHERE user_id = ?\<close>\<close>

definition select_holdings :: "env \<Rightarrow> database \<Rightarrow> jsval \<Rightarrow> thrown + holding list" where
  "select_holdings e d userId =
     (case d1_bind e userId of
        Rejected \<Rightarrow> Inl (D1TypeError userId)
      | BoundNull \<Rightarrow> if d1_fault e then Inl D1Fault else Inr []
      | BoundText u \<Rightarrow>
          if d1_fault e then Inl D1Fault
          else Inr (filter (\<lambda>h. user_id h = u) (holdings d)))"

text \<open>\<open>SELECT DISTINCT symbol FROM holdings WHERE user_id = ?\<close>: each symbol once, in the order of its first row.\<close>

fun uniq :: "'a list \<Rightarrow> 'a list \<Rightarrow> 'a list" where
  "uniq seen [] = rev seen"
| "uniq seen (x # xs) = (if x \<in> set seen then uniq seen xs else uniq (x # seen) xs)"

definition select_symbols :: "env \<Rightarrow> database \<Rightarrow> jsval \<Rightarrow> thrown + string list" where
  "select_symbols e d userId =
     (case select_holdings e d userId of
        Inl err \<Rightarrow> Inl err
      | Inr hs \<Rightarrow> Inr (uniq [] (map symbol hs)))"

text \<open>
  \<open>INSERT INTO holdings (user_id, symbol, name, shares, avg_price) VALUES (?, ?, ?, ?, ?)\<close>.
  \<open>bind\<close> refuses the first value it does not support; the statement then fails when the
  database is down or a NOT NULL column would be NULL; otherwise the row is appended
  under the next id, which \<open>meta.last_row_id\<close> reports.
\<close>

definition next_id :: "database \<Rightarrow> int" where
  "next_id d = fold max (map hid (holdings d)) (last_row_id d) + 1"

definition insert_holding ::
  "env \<Rightarrow> database \<Rightarrow> jsval \<Rightarrow> jsval \<Rightarrow> jsval \<Rightarrow> real \<Rightarrow> real \<Rightarrow> thrown + (int \<times> database)" where
  "insert_holding e d userId sy nm sh ap =
     (case d1_bind e userId of
        Rejected \<Rightarrow> Inl (D1TypeError userId)
      | bu \<Rightarrow>
     (case d1_bind e sy of
        Rejected \<Rightarrow> Inl (D1TypeError sy)
      | bs \<Rightarrow>
     (case d1_bind e nm of
        Rejected \<Rightarrow> Inl (D1TypeError nm)
      | bn \<Rightarrow>
        if d1_fault e then Inl D1Fault
        else (case (bu, bs, bn) of
                (BoundText u, BoundText s, BoundText n) \<Rightarrow>
                  Inr (next_id d,
                       \<lparr>holdings = holdings d @
                          [\<lparr>hid = next_id d, user_id = u, symbol = s, name = n,
                            shares = sh, avg_price = ap\<rparr>],
                        last_row_id = next_id d\<rparr>)
              | (BoundText u, BoundText s, _) \<Rightarrow> Inl (D1NotNull ''name'')
              | (BoundText u, _, _) \<Rightarrow> Inl (D1NotNull ''symbol'')
              | _ \<Rightarrow> Inl (D1NotNull ''user_id'')))))"

text \<open>
  \<open>DELETE FROM holdings WHERE id = ? AND user_id = ?\<close>, with the route parameter (a
  string) bound to \<open>id\<close>. The result is \<open>meta.changes\<close> and the table without the
  matching rows.
\<close>

definition delete_matches :: "env \<Rightarrow> string \<Rightarrow> string \<Rightarrow> holding \<Rightarrow> bool" where
  "delete_matches e idp u h = (id_of_text e idp = Some (hid h) \<and> user_id h = u)"

definition delete_holding :: "env \<Rightarrow> database \<Rightarrow> string \<Rightarrow> jsval \<Rightarrow> thrown + (nat \<times> database)" where
  "delete_holding e d idp userId =
     (case d1_bind e userId of
        Rejected \<Rightarrow> Inl (D1TypeError userId)
      | BoundNull \<Rightarrow> if d1_fault e then Inl D1Fault else Inr (0, d)
      | BoundText u \<Rightarrow>
          if d1_fault e then Inl D1Fault
          else Inr (length (filter (delete_matches e idp u) (holdings d)),
                    d\<lparr>holdings := filter (\<lambda>h. \<not> delete_matches e idp u h) (holdings d)\<rparr>))"

section \<open>Authentication middleware\<close>

text \<open>\<open>s.startsWith(p)\<close> and \<open>s.split(c)\<close>\<close>

definition startsWith :: "string \<Rightarrow> string \<Rightarrow> bool" where
  "startsWith s p = (take (length p) s = p)"

fun split :: "char \<Rightarrow> string \<Rightarrow> string list" where
  "split c [] = [[]]"
| "split c (x # xs) =
     (if x = c then [] # split c xs
      else (case split c xs of [] \<Rightarrow> [[x]] | w # ws \<Rightarrow> (x # w) # ws))"

definition unauthorized_missing :: response where
  "unauthorized_missing = c_json (JObj [(''error'', JStr ''Unauthorized: Missing or invalid token'')]) 401"

definition unauthorized_invalid :: response where
  "unauthorized_invalid = c_json (JObj [(''error'', JStr ''Unauthorized: Invalid token'')]) 401"

text \<open>The URL of the issuer's key set: \<open>new URL(`${issuer}/...`)\<close> of each worker.\<close>

definition clerk_jwks_url :: "env \<Rightarrow> string" where
  "clerk_jwks_url e = ISSUER e @ ''/.well-known/jwks.json''"

definition keycloak_jwks_url :: "env \<Rightarrow> string" where
  "keycloak_jwks_url e = ISSUER e @ ''/protocol/openid-connect/certs''"

text \<open>The handler's outcome, after the middleware's own call.\<close>

definition after :: "call \<Rightarrow> outcome \<Rightarrow> outcome" where
  "after c r = r\<lparr>calls := c # calls r\<rparr>"

text \<open>
  The Clerk middleware (\<open>authMiddleware\<close> of the worker with the holdings routes). The
  URL of the key set is built inside the \<open>try\<close>, so a malformed issuer is caught like any
  failure of \<open>jwtVerify\<close>. \<open>next\<close> is the route's handler, given the payload that
  \<open>c.set('user', payload)\<close> stores. After the \<open>startsWith\<close> test the split always has
  a second element; a missing one would reach \<open>jwtVerify\<close> as \<open>undefined\<close> and be thrown
  back into the same \<open>catch\<close>.
\<close>

definition authMiddleware ::
  "env \<Rightarrow> database \<Rightarrow> string option \<Rightarrow> ((string \<times> jsval) list \<Rightarrow> outcome) \<Rightarrow> outcome" where
  "authMiddleware e d authHeader next =
     (case authHeader of
        None \<Rightarrow> respond d [] unauthorized_missing
      | Some h \<Rightarrow>
          if h = [] \<or> \<not> startsWith h ''Bearer '' then respond d [] unauthorized_missing
          else (case split (CHR '' '') h of
                  _ # token # _ \<Rightarrow>
                    if \<not> url_parses e (clerk_jwks_url e) then respond d [] unauthorized_invalid
                    else (case jwtVerify e token (clerk_jwks_url e) (ISSUER e) of
                            Inl err \<Rightarrow>
                              respond d [VerifyWithKeySet (clerk_jwks_url e)] unauthorized_invalid
                          | Inr payload \<Rightarrow>
                              after (VerifyWithKeySet (clerk_jwks_url e)) (next payload))
                | _ \<Rightarrow> respond d [] unauthorized_invalid))"

text \<open>
  The Keycloak middleware: the same, except that the URL is built before the \<open>try\<close>, so
  the TypeError of a malformed issuer escapes the middleware.
\<close>

definition authMiddleware_keycloak ::
  "env \<Rightarrow> database \<Rightarrow> string option \<Rightarrow> ((string \<times> jsval) list \<Rightarrow> outcome) \<Rightarrow> outcome" where
  "authMiddleware_keycloak e d authHeader next =
     (case authHeader of
        None \<Rightarrow> respond d [] unauthorized_missing
      | Some h \<Rightarrow>
          if h = [] \<or> \<not> startsWith h ''Bearer '' then respond d [] unauthorized_missing
          else if \<not> url_parses e (keycloak_jwks_url e)
          then \<lparr>reply = Inl (InvalidURL (keycloak_jwks_url e)), calls = [], db = d\<rparr>
          else (case split (CHR '' '') h of
                  _ # token # _ \<Rightarrow>
                    (case jwtVerify e token (keycloak_jwks_url e) (ISSUER e) of
                       Inl err \<Rightarrow>
                         respond d [VerifyWithKeySet (keycloak_jwks_url e)] unauthorized_invalid
                     | Inr payload \<Rightarrow>
                         after (VerifyWithKeySet (keycloak_jwks_url e)) (next payload))
                | _ \<Rightarrow> respond d [] unauthorized_invalid))"

text \<open>\<open>user.sub\<close>, which every handler takes as the owner of the holdings.\<close>

definition user_sub :: "(string \<times> jsval) list \<Rightarrow> jsval" where
  "user_sub user = own_get user ''sub''"

section \<open>The price map\<close>

text \<open>
  \<open>priceMap\<close> is a plain object (\<open>{}\<close>) used as a dictionary, so reading a key that
  is not an own property goes on to its prototype. \<open>Object.prototype\<close> holds the
  built-in methods below and the accessor \<open>__proto__\<close>, whose setter replaces the
  prototype of the object it is called on. The model keeps the own properties and, when an
  item with ticker \<open>__proto__\<close> has been stored through that setter, the property table of
  that item (which is then the prototype, itself inheriting from \<open>Object.prototype\<close>).
\<close>

record pricemap =
  own :: "(string \<times> jsval) list"
  proto :: "(string \<times> jsval) list option"

definition empty_pricemap :: pricemap where
  "empty_pricemap = \<lparr>own = [], proto = None\<rparr>"

definition object_prototype_methods :: "string list" where
  "object_prototype_methods =
     [''constructor'', ''__defineGetter__'', ''__defineSetter__'', ''hasOwnProperty'',
      ''__lookupGetter__'', ''__lookupSetter__'', ''isPrototypeOf'', ''propertyIsEnumerable'',
      ''toString'', ''valueOf'', ''toLocaleString'']"

text \<open>
  A read that reaches \<open>Object.prototype\<close>: a built-in method, the prototype itself for
  \<open>__proto__\<close> (\<open>Object.prototype\<close> has no enumerable property and no \<open>last\<close>, so
  it is read as the empty object), or \<open>undefined\<close>.
\<close>

definition inherited_get :: "pricemap \<Rightarrow> string \<Rightarrow> jsval" where
  "inherited_get pm k =
     (if k = ''__proto__'' then (case proto pm of None \<Rightarrow> JObj [] | Some kvs \<Rightarrow> JObj kvs)
      else if k \<in> set object_prototype_methods then JFun k
      else JUndefined)"

text \<open>\<open>priceMap[k]\<close>\<close>

definition pm_get :: "pricemap \<Rightarrow> string \<Rightarrow> jsval" where
  "pm_get pm k =
     (case map_of (own pm) k of
        Some v \<Rightarrow> v
      | None \<Rightarrow>
          (case proto pm of
             None \<Rightarrow> inherited_get pm k
           | Some kvs \<Rightarrow> (case map_of kvs k of Some v \<Rightarrow> v | None \<Rightarrow> inherited_get pm k)))"

text \<open>
  \<open>priceMap[k] = item\<close>. Every key but \<open>__proto__\<close> becomes an own property. For
  \<open>__proto__\<close> the assignment finds the inherited setter, unless the map or its
  replaced prototype has an own property of that name (\<open>JSON.parse\<close> makes
  \<open>__proto__\<close> an own property of the object it builds). The setter takes an object
  and ignores a primitive; an item stored under this key has an own \<open>ticker\<close>, so it is a
  plain object.
\<close>

definition pm_put :: "pricemap \<Rightarrow> string \<Rightarrow> jsval \<Rightarrow> pricemap" where
  "pm_put pm k item =
     (if k = ''__proto__'' \<and> map_of (own pm) k = None
         \<and> (case proto pm of None \<Rightarrow> True | Some kvs \<Rightarrow> map_of kvs k = None)
      then (case item of JObj kvs \<Rightarrow> pm\<lparr>proto := Some kvs\<rparr> | _ \<Rightarrow> pm)
      else pm\<lparr>own := own_put (own pm) k item\<rparr>)"

text \<open>The property key that a value used as \<open>priceMap[v]\<close> names.\<close>

fun to_key :: "env \<Rightarrow> jsval \<Rightarrow> string" where
  "to_key e (JStr s) = s"
| "to_key e JUndefined = ''undefined''"
| "to_key e JNull = ''null''"
| "to_key e (JBool b) = (if b then ''true'' else ''false'')"
| "to_key e v = to_string e v"

text \<open>
  \<open>priceData.forEach(item => { priceMap[item.ticker] = item })\<close>; \<open>None\<close> when an
  item is \<open>null\<close> and reading its ticker throws.
\<close>

fun put_items :: "env \<Rightarrow> pricemap \<Rightarrow> jsval list \<Rightarrow> pricemap option" where
  "put_items e pm [] = Some pm"
| "put_items e pm (item # items) =
     (case get_prop item ''ticker'' of
        None \<Rightarrow> None
      | Some t \<Rightarrow> put_items e (pm_put pm (to_key e t) item) items)"

text \<open>The map is filled only when the provider's body is an array (\<open>Array.isArray\<close>).\<close>

fun build_priceMap :: "env \<Rightarrow> jsval \<Rightarrow> pricemap option" where
  "build_priceMap e (JArr items) = put_items e empty_pricemap items"
| "build_priceMap e v = Some empty_pricemap"

section \<open>Enrichment\<close>

text \<open>
  \<open>{ ...holding, currentPrice: priceMap[holding.symbol]?.last || null,
       priceData: priceMap[holding.symbol] || null }\<close>
\<close>

definition enrich :: "pricemap \<Rightarrow> holding \<Rightarrow> (string \<times> jsval) list" where
  "enrich pm h =
     own_put
       (own_put (holding_obj h) ''currentPrice''
          (js_or (get_prop_opt (pm_get pm (symbol h)) ''last'') JNull))
       ''priceData'' (js_or (pm_get pm (symbol h)) JNull)"

text \<open>\<open>holdings.map(holding => ...)\<close>: the merge of the holdings with the price map.\<close>

definition enrichedHoldings :: "pricemap \<Rightarrow> holding list \<Rightarrow> (string \<times> jsval) list list" where
  "enrichedHoldings pm hs = map (enrich pm) hs"

text \<open>\<open>xs.join(',')\<close>\<close>

fun join :: "string \<Rightarrow> string list \<Rightarrow> string" where
  "join sep [] = []"
| "join sep [x] = x"
| "join sep (x # y # ys) = x @ sep @ join sep (y # ys)"

section \<open>Handlers\<close>

definition failure :: "env \<Rightarrow> string \<Rightarrow> thrown \<Rightarrow> response" where
  "failure e what err =
     c_json (JObj [(''error'', JStr what), (''details'', JStr (error_message e err))]) 500"

text \<open>The two provider URLs and the Authorization header sent with them.\<close>

definition price_url :: "holding list \<Rightarrow> string" where
  "price_url hs = ''https://api.tiingo.com/iex/?tickers='' @ join '','' (uniq [] (map symbol hs))"

definition news_url :: "string list \<Rightarrow> string" where
  "news_url syms = ''https://api.tiingo.com/tiingo/news?tickers='' @ join '','' syms"

definition provider_auth :: "env \<Rightarrow> string" where
  "provider_auth e = ''Token '' @ TIINGO_API_TOKEN e"

text \<open>
  \<open>GET /api/holdings\<close>, for the subject \<open>userId = user.sub\<close>. The symbols are
  \<open>[...new Set(holdings.map(h => h.symbol))]\<close>: each once, in the order of first
  occurrence.
\<close>

definition get_holdings :: "env \<Rightarrow> database \<Rightarrow> jsval \<Rightarrow> outcome" where
  "get_holdings e d userId =
     (case select_holdings e d userId of
        Inl err \<Rightarrow> respond d [] (failure e ''Failed to fetch holdings'' err)
      | Inr hs \<Rightarrow>
          if length hs = 0 then respond d [] (c_json (JArr []) 200)
          else
            (case fetch e (price_url hs) (provider_auth e) of
               None \<Rightarrow>
                 respond d [Fetch (price_url hs)] (failure e ''Failed to fetch holdings'' FetchFailed)
             | Some priceResponse \<Rightarrow>
                 if \<not> ok priceResponse
                 then respond d [Fetch (price_url hs)] (c_json (JArr (map (JObj \<circ> holding_obj) hs)) 200)
                 else
                   (case json priceResponse of
                      None \<Rightarrow>
                        respond d [Fetch (price_url hs)]
                          (failure e ''Failed to fetch holdings'' BodyNotJSON)
                    | Some priceData \<Rightarrow>
                        (case build_priceMap e priceData of
                           None \<Rightarrow>
                             respond d [Fetch (price_url hs)]
                               (failure e ''Failed to fetch holdings'' (NullRead ''ticker''))
                         | Some priceMap \<Rightarrow>
                             respond d [Fetch (price_url hs)]
                               (c_json (JArr (map JObj (enrichedHoldings priceMap hs))) 200)))))"

text \<open>
  \<open>POST /api/holdings\<close>. \<open>reqBody\<close> is what \<open>c.req.json()\<close> gives (\<open>None\<close>: it
  throws). Destructuring \<open>null\<close> throws; any other body gives its own properties or
  \<open>undefined\<close>. A number that is neither NaN nor infinite is a finite one, so the third
  check is the case distinction on the two numbers.
\<close>

definition bad_request :: "string \<Rightarrow> response" where
  "bad_request msg = c_json (JObj [(''error'', JStr msg)]) 400"

definition create_holding :: "env \<Rightarrow> database \<Rightarrow> jsval \<Rightarrow> jsval option \<Rightarrow> outcome" where
  "create_holding e d userId reqBody =
     (case reqBody of
        None \<Rightarrow> respond d [] (failure e ''Failed to create holding'' BodyNotJSON)
      | Some b \<Rightarrow>
     (case (get_prop b ''symbol'', get_prop b ''name'', get_prop b ''shares'', get_prop b ''avg_price'') of
        (Some sy, Some nm, Some sh, Some ap) \<Rightarrow>
          if \<not> truthy sy \<or> \<not> truthy nm \<or> sh = JUndefined \<or> ap = JUndefined
          then respond d [] (bad_request ''Missing required fields: symbol, name, shares, avg_price'')
          else
            (case (sh, ap) of
               (JNum s, JNum a) \<Rightarrow>
                 (case (s, a) of
                    (Fin sr, Fin ar) \<Rightarrow>
                      if sr \<le> 0 then respond d [] (bad_request ''shares must be greater than 0'')
                      else if ar < 0 then respond d [] (bad_request ''avg_price must be non-negative'')
                      else
                        (case insert_holding e d userId sy nm sr ar of
                           Inl err \<Rightarrow> respond d [] (failure e ''Failed to create holding'' err)
                         | Inr (new_id, d') \<Rightarrow>
                             respond d' []
                               (c_json (JObj [(''success'', JBool True),
                                              (''id'', JNum (Fin (of_int new_id))),
                                              (''message'', JStr ''Holding added successfully'')]) 201))
                  | _ \<Rightarrow> respond d [] (bad_request ''shares and avg_price must be valid numbers''))
             | _ \<Rightarrow> respond d [] (bad_request ''shares and avg_price must be numbers''))
      | _ \<Rightarrow> respond d [] (failure e ''Failed to create holding'' (NullRead ''symbol''))))"

text \<open>\<open>DELETE /api/holdings/:id\<close>, with the route parameter \<open>idp\<close>.\<close>

definition not_found :: response where
  "not_found = c_json (JObj [(''error'', JStr ''Holding not found or unauthorized'')]) 404"

definition delete_handler :: "env \<Rightarrow> database \<Rightarrow> jsval \<Rightarrow> string \<Rightarrow> outcome" where
  "delete_handler e d userId idp =
     (case delete_holding e d idp userId of
        Inl err \<Rightarrow> respond d [] (failure e ''Failed to delete holding'' err)
      | Inr (changes, d') \<Rightarrow>
          if changes = 0 then respond d' [] not_found
          else respond d' []
                 (c_json (JObj [(''success'', JBool True),
                                (''message'', JStr ''Holding deleted successfully'')]) 200))"

text \<open>\<open>GET /api/news\<close>\<close>

definition news_failed :: response where
  "news_failed = c_json (JObj [(''error'', JStr ''Failed to fetch news'')]) 500"

definition get_news :: "env \<Rightarrow> database \<Rightarrow> jsval \<Rightarrow> outcome" where
  "get_news e d userId =
     (case select_symbols e d userId of
        Inl err \<Rightarrow> respond d [] (failure e ''Failed to fetch news'' err)
      | Inr syms \<Rightarrow>
          if length syms = 0 then respond d [] (c_json (JArr []) 200)
          else
            (case fetch e (news_url syms) (provider_auth e) of
               None \<Rightarrow> respond d [Fetch (news_url syms)] (failure e ''Failed to fetch news'' FetchFailed)
             | Some newsResponse \<Rightarrow>
                 if \<not> ok newsResponse then respond d [Fetch (news_url syms)] news_failed
                 else
                   (case json newsResponse of
                      None \<Rightarrow>
                        respond d [Fetch (news_url syms)] (failure e ''Failed to fetch news'' BodyNotJSON)
                    | Some newsData \<Rightarrow> respond d [Fetch (news_url syms)] (c_json newsData 200))))"

text \<open>
  \<open>GET /api/private\<close> of the Clerk worker: \<open>{ id: user.sub, ...user }\<close>. The spread
  copies each claim of the payload after \<open>id\<close>.
\<close>

definition spread :: "(string \<times> jsval) list \<Rightarrow> (string \<times> jsval) list \<Rightarrow> (string \<times> jsval) list" where
  "spread base kvs = fold (\<lambda>k acc. own_put acc k (own_get kvs k)) (uniq [] (map fst kvs)) base"

definition private_handler :: "database \<Rightarrow> (string \<times> jsval) list \<Rightarrow> outcome" where
  "private_handler d user =
     respond d []
       (c_json (JObj [(''message'', JStr ''Secure data accessed successfully!''),
                      (''user'', JObj (spread [(''id'', user_sub user)] user))]) 200)"

section \<open>Routes\<close>

record request =
  authorization :: "string option"    \<comment> \<open>the Authorization header\<close>
  param_id :: string                  \<comment> \<open>\<open>:id\<close>\<close>
  req_json :: "jsval option"          \<comment> \<open>the parsed body\<close>

definition route_private :: "env \<Rightarrow> database \<Rightarrow> request \<Rightarrow> outcome" where
  "route_private e d req = authMiddleware e d (authorization req) (private_handler d)"

definition route_get_holdings :: "env \<Rightarrow> database \<Rightarrow> request \<Rightarrow> outcome" where
  "route_get_holdings e d req =
     authMiddleware e d (authorization req) (\<lambda>user. get_holdings e d (user_sub user))"

definition route_post_holdings :: "env \<Rightarrow> database \<Rightarrow> request \<Rightarrow> outcome" where
  "route_post_holdings e d req =
     authMiddleware e d (authorization req) (\<lambda>user. create_holding e d (user_sub user) (req_json req))"

definition route_delete_holding :: "env \<Rightarrow> database \<Rightarrow> request \<Rightarrow> outcome" where
  "route_delete_holding e d req =
     authMiddleware e d (authorization req) (\<lambda>user. delete_handler e d (user_sub user) (param_id req))"

definition route_get_news :: "env \<Rightarrow> database \<Rightarrow> request \<Rightarrow> outcome" where
  "route_get_news e d req =
     authMiddleware e d (authorization req) (\<lambda>user. get_news e d (user_sub user))"

section \<open>Notions used to state the properties\<close>

text \<open>\<open>n <= 0\<close> and \<open>n < 0\<close> on a JavaScript number.\<close>

fun js_le0 :: "jsnum \<Rightarrow> bool" where
  "js_le0 (Fin r) = (r \<le> 0)"
| "js_le0 NegInf = True"
| "js_le0 PosInf = False"
| "js_le0 NaN = False"

fun js_lt0 :: "jsnum \<Rightarrow> bool" where
  "js_lt0 (Fin r) = (r < 0)"
| "js_lt0 NegInf = True"
| "js_lt0 PosInf = False"
| "js_lt0 NaN = False"

text \<open>An object of a response has the field (with whatever value, \<open>null\<close> included).\<close>

definition has_field :: "jsval \<Rightarrow> string \<Rightarrow> bool" where
  "has_field v k = (case v of JObj kvs \<Rightarrow> map_of kvs k \<noteq> None | _ \<Rightarrow> False)"

text \<open>An object of a response carries both price fields with the absent marker \<open>null\<close>.\<close>

definition absent_marked :: "jsval \<Rightarrow> bool" where
  "absent_marked v =
     (case v of
        JObj kvs \<Rightarrow> map_of kvs ''currentPrice'' = Some JNull \<and> map_of kvs ''priceData'' = Some JNull
      | _ \<Rightarrow> False)"

text \<open>The reply is a 200 whose body is a list of objects that all carry the absent markers.\<close>

definition ok_all_absent_marked :: "outcome \<Rightarrow> bool" where
  "ok_all_absent_marked r =
     (case reply r of
        Inr resp \<Rightarrow>
          status resp = 200 \<and> (case body resp of JArr xs \<Rightarrow> list_all absent_marked xs | _ \<Rightarrow> False)
      | Inl err \<Rightarrow> False)"

text \<open>The token that the middleware takes from a header that starts with \<open>Bearer \<close>.\<close>

definition bearer_token :: "string \<Rightarrow> string" where
  "bearer_token h = takeWhile (\<lambda>c. c \<noteq> CHR '' '') (drop 7 h)"

section \<open>A small deployment, for concrete runs\<close>

definition aapl :: holding where
  "aapl = \<lparr>hid = 1, user_id = ''u1'', symbol = ''AAPL'', name = ''Apple Inc.'', shares = 10, avg_price = 150\<rparr>"

definition tsla :: holding where
  "tsla = \<lparr>hid = 2, user_id = ''u2'', symbol = ''TSLA'', name = ''Tesla'', shares = 3, avg_price = 200\<rparr>"

definition ctor :: holding where
  "ctor = \<lparr>hid = 3, user_id = ''u3'', symbol = ''constructor'', name = ''Constructor Ltd'', shares = 1, avg_price = 1\<rparr>"

definition msft :: holding where
  "msft = \<lparr>hid = 4, user_id = ''u4'', symbol = ''MSFT'', name = ''Microsoft'', shares = 5, avg_price = 300\<rparr>"

text \<open>A price map that covers TSLA only, and a provider body with a quote whose last price is 0.\<close>

definition tsla_quote :: jsval where
  "tsla_quote = JObj [(''ticker'', JStr ''TSLA''), (''last'', JNum (Fin 250)), (''volume'', JNum (Fin 1000))]"

definition pm_tsla :: pricemap where
  "pm_tsla = \<lparr>own = [(''TSLA'', tsla_quote)], proto = None\<rparr>"

definition aapl_quote_zero :: jsval where
  "aapl_quote_zero = JObj [(''ticker'', JStr ''AAPL''), (''last'', JNum (Fin 0))]"

text \<open>A create request with \<open>shares = 0\<close>.\<close>

definition zero_shares_body :: jsval where
  "zero_shares_body = JObj [(''symbol'', JStr ''AAPL''), (''name'', JStr ''Apple Inc.''),
                            (''shares'', JNum (Fin 0)), (''avg_price'', JNum (Fin 150))]"

definition db1 :: database where
  "db1 = \<lparr>holdings = [aapl, tsla, ctor], last_row_id = 3\<rparr>"

definition good_payload :: "(string \<times> jsval) list" where
  "good_payload = [(''iss'', JStr ''https://clerk.example.com''), (''sub'', JStr ''u1'')]"

definition payload_without_sub :: "(string \<times> jsval) list" where
  "payload_without_sub = [(''iss'', JStr ''https://clerk.example.com''), (''azp'', JStr ''app'')]"

text \<open>
  A provider that answers every request with a non-success response, a database that is
  up, a verifier that accepts the token \<open>good\<close> and one that accepts a token without
  \<open>sub\<close>.
\<close>

definition env0 :: env where
  "env0 =
     \<lparr>ISSUER = ''https://clerk.example.com'',
      TIINGO_API_TOKEN = ''secret'',
      url_parses = (\<lambda>s. startsWith s ''https://''),
      jwtVerify = (\<lambda>token url iss.
         if token = ''good'' then Inr good_payload
         else if token = ''nosub'' then Inr payload_without_sub
         else if token = ''nokeys'' then Inl KeyResolutionFailed
         else Inl TokenRejected),
      fetch = (\<lambda>url auth. Some \<lparr>ok = False, json = None\<rparr>),
      d1_fault = False,
      d1_coerce = (\<lambda>v. Rejected),
      id_of_text = (\<lambda>s. if s = ''1'' then Some 1 else if s = ''2'' then Some 2
                         else if s = ''3'' then Some 3 else if s = ''99'' then Some 99 else None),
      to_string = (\<lambda>v. ''[object Object]''),
      error_message = (\<lambda>err. ''error'')\<rparr>"

text \<open>The same deployment with a provider that answers 200 with the given body.\<close>

definition env_body :: "jsval \<Rightarrow> env" where
  "env_body b = env0\<lparr>fetch := (\<lambda>url auth. Some \<lparr>ok = True, json = Some b\<rparr>)\<rparr>"

text \<open>The same deployment with an issuer that is not an absolute URL.\<close>

definition env_bad_issuer :: env where
  "env_bad_issuer = env0\<lparr>ISSUER := ''clerk.example.com''\<rparr>"

section \<open>Auxiliary facts\<close>

lemma split_head: "\<exists>ws. split c xs = takeWhile (\<lambda>x. x \<noteq> c) xs # ws"
  by (induction xs) (auto split: list.splits)

text \<open>After the \<open>startsWith\<close> test, \<open>authHeader.split(' ')[1]\<close> is the token.\<close>

lemma split_bearer:
  assumes "startsWith h ''Bearer ''"
  shows "\<exists>ws. split (CHR '' '') h = ''Bearer'' # bearer_token h # ws"
proof -
  have len: "length ''Bearer '' = 7" by simp
  from assms have "take (length ''Bearer '') h = ''Bearer ''"
    by (simp only: startsWith_def)
  then have t: "take 7 h = ''Bearer ''"
    by (simp only: len)
  have "h = take 7 h @ drop 7 h" by simp
  with t have h: "h = ''Bearer '' @ drop 7 h" by simp
  obtain ws where ws: "split (CHR '' '') (drop 7 h) = bearer_token h # ws"
    using split_head[of "CHR '' ''" "drop 7 h"] by (auto simp: bearer_token_def)
  have "split (CHR '' '') (''Bearer '' @ drop 7 h) = ''Bearer'' # bearer_token h # ws"
    by (simp add: ws)
  with h show ?thesis by metis
qed

text \<open>A stored row serialises to itself: six fields, all numbers and strings.\<close>

lemma stringify_holding_obj: "stringify (JObj (holding_obj h)) = JObj (holding_obj h)"
  by (simp add: holding_obj_def)

lemma stringify_stored:
  "stringify (JArr (map (JObj \<circ> holding_obj) hs)) = JArr (map (JObj \<circ> holding_obj) hs)"
  by (induction hs) (simp_all add: holding_obj_def)

text \<open>The enriched holding is the row followed by the two price fields.\<close>

lemma enrich_fields:
  "enrich pm h = holding_obj h @
     [(''currentPrice'', js_or (get_prop_opt (pm_get pm (symbol h)) ''last'') JNull),
      (''priceData'', js_or (pm_get pm (symbol h)) JNull)]"
  by (simp add: enrich_def holding_obj_def)

lemma select_u1: "select_holdings env0 db1 (JStr ''u1'') = Inr [aapl]"
  by (simp add: select_holdings_def env0_def db1_def aapl_def tsla_def ctor_def)

lemma price_url_aapl: "price_url [aapl] = ''https://api.tiingo.com/iex/?tickers=AAPL''"
  by (simp add: price_url_def aapl_def)

lemma select_u1_body: "select_holdings (env_body b) db1 (JStr ''u1'') = Inr [aapl]"
  by (simp add: select_holdings_def env_body_def env0_def db1_def aapl_def tsla_def ctor_def)

lemma select_u3_body: "select_holdings (env_body b) db1 (JStr ''u3'') = Inr [ctor]"
  by (simp add: select_holdings_def env_body_def env0_def db1_def aapl_def tsla_def ctor_def)

lemma fetch_body: "fetch (env_body b) url auth = Some \<lparr>ok = True, json = Some b\<rparr>"
  by (simp add: env_body_def)

lemma symbols_u1: "select_symbols env0 db1 (JStr ''u1'') = Inr [''AAPL'']"
  by (simp add: select_symbols_def select_u1 aapl_def)

subsection \<open>The middleware on a well-formed header\<close>

lemma middleware_accepts:
  assumes "startsWith h ''Bearer ''"
      and "url_parses e (clerk_jwks_url e)"
      and "jwtVerify e (bearer_token h) (clerk_jwks_url e) (ISSUER e) = Inr payload"
  shows "authMiddleware e d (Some h) handler =
           after (VerifyWithKeySet (clerk_jwks_url e)) (handler payload)"
proof -
  obtain ws where "split (CHR '' '') h = ''Bearer'' # bearer_token h # ws"
    using split_bearer[OF assms(1)] by blast
  moreover have "h \<noteq> []" using assms(1) by (auto simp: startsWith_def)
  ultimately show ?thesis using assms by (simp add: authMiddleware_def)
qed

text \<open>An authenticated request reaches the route's handler with \<open>userId = user.sub\<close>.\<close>

lemma authenticated_route:
  assumes "authorization req = Some h"
      and "startsWith h ''Bearer ''"
      and "url_parses e (clerk_jwks_url e)"
      and "jwtVerify e (bearer_token h) (clerk_jwks_url e) (ISSUER e) = Inr payload"
  shows "route_get_holdings e d req =
           after (VerifyWithKeySet (clerk_jwks_url e)) (get_holdings e d (user_sub payload))"
    and "route_get_news e d req =
           after (VerifyWithKeySet (clerk_jwks_url e)) (get_news e d (user_sub payload))"
    and "route_post_holdings e d req =
           after (VerifyWithKeySet (clerk_jwks_url e))
             (create_holding e d (user_sub payload) (req_json req))"
    and "route_delete_holding e d req =
           after (VerifyWithKeySet (clerk_jwks_url e))
             (delete_handler e d (user_sub payload) (param_id req))"
  using assms(1) middleware_accepts[OF assms(2-4)]
  by (simp_all add: route_get_holdings_def route_get_news_def route_post_holdings_def
      route_delete_holding_def)

lemma clerk_failure:
  assumes "startsWith h ''Bearer ''"
  shows "\<not> url_parses e (clerk_jwks_url e) \<Longrightarrow>
           authMiddleware e d (Some h) handler = respond d [] unauthorized_invalid"
    and "url_parses e (clerk_jwks_url e) \<Longrightarrow>
         jwtVerify e (bearer_token h) (clerk_jwks_url e) (ISSUER e) = Inl err \<Longrightarrow>
           authMiddleware e d (Some h) handler =
             respond d [VerifyWithKeySet (clerk_jwks_url e)] unauthorized_invalid"
proof -
  obtain ws where ws: "split (CHR '' '') h = ''Bearer'' # bearer_token h # ws"
    using split_bearer[OF assms] by blast
  have ne: "h \<noteq> []" using assms by (auto simp: startsWith_def)
  show "\<not> url_parses e (clerk_jwks_url e) \<Longrightarrow>
           authMiddleware e d (Some h) handler = respond d [] unauthorized_invalid"
    using assms ws ne by (simp add: authMiddleware_def)
  show "url_parses e (clerk_jwks_url e) \<Longrightarrow>
         jwtVerify e (bearer_token h) (clerk_jwks_url e) (ISSUER e) = Inl err \<Longrightarrow>
           authMiddleware e d (Some h) handler =
             respond d [VerifyWithKeySet (clerk_jwks_url e)] unauthorized_invalid"
    using assms ws ne by (simp add: authMiddleware_def)
qed

lemma keycloak_failure:
  assumes "startsWith h ''Bearer ''"
  shows "\<not> url_parses e (keycloak_jwks_url e) \<Longrightarrow>
           authMiddleware_keycloak e d (Some h) handler =
             \<lparr>reply = Inl (InvalidURL (keycloak_jwks_url e)), calls = [], db = d\<rparr>"
    and "url_parses e (keycloak_jwks_url e) \<Longrightarrow>
         jwtVerify e (bearer_token h) (keycloak_jwks_url e) (ISSUER e) = Inl err \<Longrightarrow>
           authMiddleware_keycloak e d (Some h) handler =
             respond d [VerifyWithKeySet (keycloak_jwks_url e)] unauthorized_invalid"
proof -
  obtain ws where ws: "split (CHR '' '') h = ''Bearer'' # bearer_token h # ws"
    using split_bearer[OF assms] by blast
  have ne: "h \<noteq> []" using assms by (auto simp: startsWith_def)
  show "\<not> url_parses e (keycloak_jwks_url e) \<Longrightarrow>
           authMiddleware_keycloak e d (Some h) handler =
             \<lparr>reply = Inl (InvalidURL (keycloak_jwks_url e)), calls = [], db = d\<rparr>"
    using assms ws ne by (simp add: authMiddleware_keycloak_def)
  show "url_parses e (keycloak_jwks_url e) \<Longrightarrow>
         jwtVerify e (bearer_token h) (keycloak_jwks_url e) (ISSUER e) = Inl err \<Longrightarrow>
           authMiddleware_keycloak e d (Some h) handler =
             respond d [VerifyWithKeySet (keycloak_jwks_url e)] unauthorized_invalid"
    using assms ws ne by (simp add: authMiddleware_keycloak_def)
qed

lemma bearer_good: "bearer_token ''Bearer good'' = ''good''"
  by (simp add: bearer_token_def)

lemma bad_issuer_url: "\<not> url_parses env_bad_issuer (clerk_jwks_url env_bad_issuer)"
  by (simp add: env_bad_issuer_def env0_def clerk_jwks_url_def startsWith_def)

lemma bad_issuer_url_keycloak: "\<not> url_parses env_bad_issuer (keycloak_jwks_url env_bad_issuer)"
  by (simp add: env_bad_issuer_def env0_def keycloak_jwks_url_def startsWith_def)

lemma nokeys_clerk:
  "url_parses env0 (clerk_jwks_url env0)
   \<and> jwtVerify env0 (bearer_token ''Bearer nokeys'') (clerk_jwks_url env0) (ISSUER env0)
       = Inl KeyResolutionFailed"
  by (simp add: env0_def clerk_jwks_url_def startsWith_def bearer_token_def)

lemma nokeys_keycloak:
  "url_parses env0 (keycloak_jwks_url env0)
   \<and> jwtVerify env0 (bearer_token ''Bearer nokeys'') (keycloak_jwks_url env0) (ISSUER env0)
       = Inl KeyResolutionFailed"
  by (simp add: env0_def keycloak_jwks_url_def startsWith_def bearer_token_def)

subsection \<open>Deleting where no row matches\<close>

lemma delete_no_match:
  assumes "\<forall>h\<in>set (holdings d).
             id_of_text e idp = Some (hid h) \<longrightarrow> d1_bind e userId \<noteq> BoundText (user_id h)"
  shows "delete_holding e d idp userId =
           (case d1_bind e userId of
              Rejected \<Rightarrow> Inl (D1TypeError userId)
            | _ \<Rightarrow> if d1_fault e then Inl D1Fault else Inr (0, d))"
proof (cases "d1_bind e userId")
  case (BoundText u)
  with assms have none: "\<forall>h\<in>set (holdings d). \<not> delete_matches e idp u h"
    by (auto simp: delete_matches_def)
  then have "filter (delete_matches e idp u) (holdings d) = []"
    by (simp add: filter_empty_conv)
  moreover from none have "filter (\<lambda>h. \<not> delete_matches e idp u h) (holdings d) = holdings d"
    by (simp add: filter_id_conv)
  ultimately show ?thesis using BoundText by (simp add: delete_holding_def)
qed (simp_all add: delete_holding_def)

subsection \<open>What the merge attaches\<close>

text \<open>
  A symbol that is neither a key of the map nor the name of an inherited property gets
  \<open>null\<close> in both fields; a symbol whose quote has a truthy last price gets that price
  and the quote.
\<close>

lemma enrich_absent:
  assumes "map_of (own pm) (symbol h) = None"
      and "proto pm = None"
      and "symbol h \<noteq> ''__proto__''"
      and "symbol h \<notin> set object_prototype_methods"
  shows "enrich pm h = holding_obj h @ [(''currentPrice'', JNull), (''priceData'', JNull)]"
proof -
  from assms have "pm_get pm (symbol h) = JUndefined"
    by (simp add: pm_get_def inherited_get_def)
  then show ?thesis by (simp add: enrich_fields js_or_def)
qed

lemma enrich_present:
  assumes "map_of (own pm) (symbol h) = Some (JObj q)"
      and "truthy (own_get q ''last'')"
  shows "enrich pm h =
           holding_obj h @ [(''currentPrice'', own_get q ''last''), (''priceData'', JObj q)]"
proof -
  from assms(1) have "pm_get pm (symbol h) = JObj q"
    by (simp add: pm_get_def)
  with assms(2) show ?thesis by (simp add: enrich_fields js_or_def)
qed

lemma pm_tsla_gets:
  "pm_get pm_tsla (symbol aapl) = JUndefined"
  "pm_get pm_tsla (symbol tsla) = tsla_quote"
  "pm_get pm_tsla (symbol msft) = JUndefined"
  by (simp_all add: pm_get_def pm_tsla_def aapl_def tsla_def msft_def inherited_get_def
      object_prototype_methods_def)

lemma build_priceMap_non_array:
  assumes "\<forall>items. b \<noteq> JArr items"
  shows "build_priceMap e b = Some empty_pricemap"
  using assms by (cases b) simp_all

lemma absent_marked_enriched:
  "absent_marked (JObj (holding_obj h @ [(''currentPrice'', JNull), (''priceData'', JNull)]))"
  by (simp add: absent_marked_def holding_obj_def)

text \<open>
  A provider body that is JSON but no array leaves the map empty, and every holding whose
  symbol is not the name of an inherited property then carries \<open>null\<close> in both fields.
\<close>

lemma non_array_body_all_absent:
  assumes "select_holdings e d userId = Inr hs"
      and "hs \<noteq> []"
      and "fetch e (price_url hs) (provider_auth e) = Some r"
      and "ok r"
      and "json r = Some b"
      and "\<forall>items. b \<noteq> JArr items"
      and "\<forall>h \<in> set hs. symbol h \<noteq> ''__proto__'' \<and> symbol h \<notin> set object_prototype_methods"
  shows "ok_all_absent_marked (get_holdings e d userId)"
proof -
  have en: "\<forall>h \<in> set hs. enrich empty_pricemap h =
              holding_obj h @ [(''currentPrice'', JNull), (''priceData'', JNull)]"
    using assms(7) by (auto intro!: enrich_absent simp: empty_pricemap_def)
  then have m: "map JObj (enrichedHoldings empty_pricemap hs) =
             map (\<lambda>h. JObj (holding_obj h @ [(''currentPrice'', JNull), (''priceData'', JNull)])) hs"
    by (simp add: enrichedHoldings_def)
  have s: "stringify (JArr (map (\<lambda>h. JObj (holding_obj h @ [(''currentPrice'', JNull), (''priceData'', JNull)])) hs))
         = JArr (map (\<lambda>h. JObj (holding_obj h @ [(''currentPrice'', JNull), (''priceData'', JNull)])) hs)"
    by (induction hs) (simp_all add: holding_obj_def)
  have g: "get_holdings e d userId =
             respond d [Fetch (price_url hs)]
               \<lparr>status = 200,
                body = JArr (map (\<lambda>h. JObj (holding_obj h @ [(''currentPrice'', JNull), (''priceData'', JNull)])) hs)\<rparr>"
    using assms(1-5) build_priceMap_non_array[OF assms(6), of e]
    by (simp add: get_holdings_def m c_json_def s del: stringify.simps)
  show ?thesis
    by (simp add: g ok_all_absent_marked_def respond_def list_all_iff absent_marked_enriched)
qed

subsection \<open>A valid create request is persisted\<close>

lemma create_valid_persists:
  assumes "get_prop b ''symbol'' = Some (JStr sy)" and "sy \<noteq> []"
      and "get_prop b ''name'' = Some (JStr nm)" and "nm \<noteq> []"
      and "get_prop b ''shares'' = Some (JNum (Fin sr))" and "0 < sr"
      and "get_prop b ''avg_price'' = Some (JNum (Fin ar))" and "0 \<le> ar"
      and "d1_bind e userId = BoundText u"
      and "\<not> d1_fault e"
  shows "db (create_holding e d userId (Some b)) =
           \<lparr>holdings = holdings d @
              [\<lparr>hid = next_id d, user_id = u, symbol = sy, name = nm, shares = sr, avg_price = ar\<rparr>],
            last_row_id = next_id d\<rparr>
       \<and> (\<exists>r. reply (create_holding e d userId (Some b)) = Inr r \<and> status r = 201)"
  using assms
  by (simp add: create_holding_def insert_holding_def respond_def c_json_def)

section \<open>Holdings when the price provider answers with a non-success response\<close>

text \<open>
  C1, as the code has it. When the provider answers \<open>GET /api/holdings\<close>'s price request
  with a non-success response, the handler replies 200 with the rows exactly as the table
  holds them: every holding has its six columns, and the fields \<open>currentPrice\<close> and
  \<open>priceData\<close> are left out (they are not present with \<open>null\<close>).
\<close>

theorem provider_failure_returns_stored_rows:
  assumes "select_holdings e d userId = Inr hs"
      and "hs \<noteq> []"
      and "fetch e (price_url hs) (provider_auth e) = Some r"
      and "\<not> ok r"
  shows "get_holdings e d userId =
           respond d [Fetch (price_url hs)]
             \<lparr>status = 200, body = JArr (map (JObj \<circ> holding_obj) hs)\<rparr>
         \<and> (\<forall>h \<in> set hs. \<not> has_field (JObj (holding_obj h)) ''currentPrice''
                          \<and> \<not> has_field (JObj (holding_obj h)) ''priceData'')"
proof
  show "get_holdings e d userId =
           respond d [Fetch (price_url hs)]
             \<lparr>status = 200, body = JArr (map (JObj \<circ> holding_obj) hs)\<rparr>"
    using assms by (simp add: get_holdings_def c_json_def stringify_stored del: stringify.simps)
  show "\<forall>h \<in> set hs. \<not> has_field (JObj (holding_obj h)) ''currentPrice''
                          \<and> \<not> has_field (JObj (holding_obj h)) ''priceData''"
    by (simp add: has_field_def holding_obj_def)
qed

theorem provider_failure_returns_stored_rows_witness:
  "select_holdings env0 db1 (JStr ''u1'') = Inr [aapl]
   \<and> fetch env0 (price_url [aapl]) (provider_auth env0) = Some \<lparr>ok = False, json = None\<rparr>
   \<and> get_holdings env0 db1 (JStr ''u1'') =
       respond db1 [Fetch ''https://api.tiingo.com/iex/?tickers=AAPL'']
         \<lparr>status = 200, body = JArr [JObj (holding_obj aapl)]\<rparr>
   \<and> \<not> has_field (JObj (holding_obj aapl)) ''priceData''"
proof -
  have f: "fetch env0 (price_url [aapl]) (provider_auth env0) = Some \<lparr>ok = False, json = None\<rparr>"
    by (simp add: env0_def)
  have "\<not> ok \<lparr>ok = False, json = None\<rparr>" by simp
  from provider_failure_returns_stored_rows [OF select_u1 _ f this] select_u1 f
  show ?thesis by (simp add: price_url_aapl)
qed

text \<open>
  C1, as the specification words it, fails: for subject \<open>u1\<close>, whose one holding is AAPL,
  and a provider answering with a non-success response, the reply is 200 but its holding
  has no \<open>currentPrice\<close> field, so it does not carry the absent markers.
\<close>

theorem provider_failure_omits_price_fields:
  "fetch env0 (price_url [aapl]) (provider_auth env0) = Some \<lparr>ok = False, json = None\<rparr>
   \<and> reply (get_holdings env0 db1 (JStr ''u1'')) =
       Inr \<lparr>status = 200, body = JArr [JObj (holding_obj aapl)]\<rparr>
   \<and> \<not> has_field (JObj (holding_obj aapl)) ''currentPrice''
   \<and> \<not> ok_all_absent_marked (get_holdings env0 db1 (JStr ''u1''))"
proof -
  have f: "fetch env0 (price_url [aapl]) (provider_auth env0) = Some \<lparr>ok = False, json = None\<rparr>"
    by (simp add: env0_def)
  have g: "get_holdings env0 db1 (JStr ''u1'') =
       respond db1 [Fetch (price_url [aapl])] \<lparr>status = 200, body = JArr [JObj (holding_obj aapl)]\<rparr>"
    using select_u1 f
    by (simp add: get_holdings_def c_json_def stringify_holding_obj del: stringify.simps(1))
  show ?thesis
    by (simp add: f g respond_def ok_all_absent_marked_def absent_marked_def has_field_def holding_obj_def)
qed

section \<open>The subject of a verified token\<close>

text \<open>
  C2, as the code has it. For every token that \<open>jwtVerify\<close> accepts, the Clerk middleware
  stores the whole decoded payload as \<open>user\<close> and runs the handler; it never looks at
  \<open>sub\<close>. The subject that the handlers use, \<open>user.sub\<close>, is the payload's
  \<open>sub\<close> claim when the payload has one and \<open>undefined\<close> when it has none; a
  payload without \<open>sub\<close> is accepted all the same.
\<close>

theorem accepted_token_subject_is_sub_or_undefined:
  assumes "startsWith h ''Bearer ''"
      and "url_parses e (clerk_jwks_url e)"
      and "jwtVerify e (bearer_token h) (clerk_jwks_url e) (ISSUER e) = Inr payload"
  shows "authMiddleware e d (Some h) handler =
           after (VerifyWithKeySet (clerk_jwks_url e)) (handler payload)
         \<and> (\<forall>v. map_of payload ''sub'' = Some v \<longrightarrow> user_sub payload = v)
         \<and> (map_of payload ''sub'' = None \<longrightarrow> user_sub payload = JUndefined)"
  using middleware_accepts[OF assms] by (simp add: user_sub_def own_get_def)

theorem accepted_token_subject_is_sub_or_undefined_witness:
  "startsWith ''Bearer good'' ''Bearer ''
   \<and> url_parses env0 (clerk_jwks_url env0)
   \<and> jwtVerify env0 (bearer_token ''Bearer good'') (clerk_jwks_url env0) (ISSUER env0)
       = Inr good_payload
   \<and> authMiddleware env0 db1 (Some ''Bearer good'') (private_handler db1) =
       after (VerifyWithKeySet (clerk_jwks_url env0)) (private_handler db1 good_payload)
   \<and> user_sub good_payload = JStr ''u1''"
proof -
  have a: "startsWith ''Bearer good'' ''Bearer ''" by (simp add: startsWith_def)
  have b: "url_parses env0 (clerk_jwks_url env0)"
    by (simp add: env0_def clerk_jwks_url_def startsWith_def)
  have c: "jwtVerify env0 (bearer_token ''Bearer good'') (clerk_jwks_url env0) (ISSUER env0)
             = Inr good_payload"
    by (simp add: env0_def bearer_good)
  have s: "map_of good_payload ''sub'' = Some (JStr ''u1'')" by (simp add: good_payload_def)
  from accepted_token_subject_is_sub_or_undefined [OF a b c, of db1 "private_handler db1"] a b c s
  show ?thesis by simp
qed

text \<open>
  C2, as the specification words it, fails: a token whose verified payload has no
  \<open>sub\<close> claim is not rejected. \<open>GET /api/private\<close> answers 200 and echoes the
  payload, with no \<open>id\<close>.
\<close>

theorem token_without_sub_is_accepted:
  "jwtVerify env0 (bearer_token ''Bearer nosub'') (clerk_jwks_url env0) (ISSUER env0)
     = Inr payload_without_sub
   \<and> map_of payload_without_sub ''sub'' = None
   \<and> reply (route_private env0 db1
        \<lparr>authorization = Some ''Bearer nosub'', param_id = [], req_json = None\<rparr>) =
       Inr \<lparr>status = 200,
            body = JObj [(''message'', JStr ''Secure data accessed successfully!''),
                         (''user'', JObj payload_without_sub)]\<rparr>"
  by (simp add: env0_def bearer_token_def payload_without_sub_def route_private_def
      authMiddleware_def startsWith_def clerk_jwks_url_def after_def private_handler_def
      respond_def c_json_def user_sub_def own_get_def spread_def)

section \<open>Failures of the key resolver\<close>

text \<open>
  C3, as the code has it. A failure of the key resolver is not reported as an error of its
  own. In the Clerk middleware a malformed issuer URL is caught before any outbound call
  and answered with 401 \<open>Unauthorized: Invalid token\<close>, and so is any error that
  \<open>jwtVerify\<close> throws, a failed key discovery included: the same reply as for an invalid
  token. In the Keycloak middleware a failed key discovery gets that 401 too, while a
  malformed issuer URL is thrown out of the middleware before any outbound call.
\<close>

theorem key_resolver_failures_as_reported:
  assumes "startsWith h ''Bearer ''"
  shows "(\<not> url_parses e (clerk_jwks_url e) \<longrightarrow>
            authMiddleware e d (Some h) handler = respond d [] unauthorized_invalid)
       \<and> (url_parses e (clerk_jwks_url e)
            \<and> jwtVerify e (bearer_token h) (clerk_jwks_url e) (ISSUER e) = Inl err \<longrightarrow>
            authMiddleware e d (Some h) handler =
              respond d [VerifyWithKeySet (clerk_jwks_url e)] unauthorized_invalid)
       \<and> (\<not> url_parses e (keycloak_jwks_url e) \<longrightarrow>
            authMiddleware_keycloak e d (Some h) handler =
              \<lparr>reply = Inl (InvalidURL (keycloak_jwks_url e)), calls = [], db = d\<rparr>)
       \<and> (url_parses e (keycloak_jwks_url e)
            \<and> jwtVerify e (bearer_token h) (keycloak_jwks_url e) (ISSUER e) = Inl err \<longrightarrow>
            authMiddleware_keycloak e d (Some h) handler =
              respond d [VerifyWithKeySet (keycloak_jwks_url e)] unauthorized_invalid)"
  using clerk_failure[OF assms] keycloak_failure[OF assms] by blast

theorem key_resolver_failures_as_reported_witness:
  "startsWith ''Bearer nokeys'' ''Bearer ''
   \<and> \<not> url_parses env_bad_issuer (clerk_jwks_url env_bad_issuer)
   \<and> authMiddleware env_bad_issuer db1 (Some ''Bearer nokeys'') (private_handler db1) =
       respond db1 [] unauthorized_invalid
   \<and> url_parses env0 (clerk_jwks_url env0)
   \<and> jwtVerify env0 (bearer_token ''Bearer nokeys'') (clerk_jwks_url env0) (ISSUER env0)
       = Inl KeyResolutionFailed
   \<and> authMiddleware env0 db1 (Some ''Bearer nokeys'') (private_handler db1) =
       respond db1 [VerifyWithKeySet (clerk_jwks_url env0)] unauthorized_invalid
   \<and> \<not> url_parses env_bad_issuer (keycloak_jwks_url env_bad_issuer)
   \<and> authMiddleware_keycloak env_bad_issuer db1 (Some ''Bearer nokeys'') (private_handler db1) =
       \<lparr>reply = Inl (InvalidURL (keycloak_jwks_url env_bad_issuer)), calls = [], db = db1\<rparr>
   \<and> url_parses env0 (keycloak_jwks_url env0)
   \<and> jwtVerify env0 (bearer_token ''Bearer nokeys'') (keycloak_jwks_url env0) (ISSUER env0)
       = Inl KeyResolutionFailed
   \<and> authMiddleware_keycloak env0 db1 (Some ''Bearer nokeys'') (private_handler db1) =
       respond db1 [VerifyWithKeySet (keycloak_jwks_url env0)] unauthorized_invalid"
proof -
  have a: "startsWith ''Bearer nokeys'' ''Bearer ''" by (simp add: startsWith_def)
  from key_resolver_failures_as_reported
         [OF a, of env_bad_issuer db1 "private_handler db1" KeyResolutionFailed]
       key_resolver_failures_as_reported
         [OF a, of env0 db1 "private_handler db1" KeyResolutionFailed]
       a bad_issuer_url bad_issuer_url_keycloak nokeys_clerk nokeys_keycloak
  show ?thesis by blast
qed

text \<open>
  C3, as the specification words it, fails: with an issuer that is no absolute URL, and
  with a key set that cannot be fetched, the Clerk middleware gives the very reply it gives
  to a forged token, 401 \<open>Unauthorized: Invalid token\<close>.
\<close>

theorem resolver_failure_reported_as_invalid_token:
  "\<not> url_parses env_bad_issuer (clerk_jwks_url env_bad_issuer)
   \<and> reply (authMiddleware env_bad_issuer db1 (Some ''Bearer good'') (private_handler db1)) =
       Inr \<lparr>status = 401, body = JObj [(''error'', JStr ''Unauthorized: Invalid token'')]\<rparr>
   \<and> jwtVerify env0 ''nokeys'' (clerk_jwks_url env0) (ISSUER env0) = Inl KeyResolutionFailed
   \<and> reply (authMiddleware env0 db1 (Some ''Bearer nokeys'') (private_handler db1)) =
       Inr \<lparr>status = 401, body = JObj [(''error'', JStr ''Unauthorized: Invalid token'')]\<rparr>
   \<and> jwtVerify env0 ''forged'' (clerk_jwks_url env0) (ISSUER env0) = Inl TokenRejected
   \<and> reply (authMiddleware env0 db1 (Some ''Bearer forged'') (private_handler db1)) =
       Inr \<lparr>status = 401, body = JObj [(''error'', JStr ''Unauthorized: Invalid token'')]\<rparr>"
  by (simp add: env_bad_issuer_def env0_def clerk_jwks_url_def startsWith_def authMiddleware_def
      respond_def unauthorized_invalid_def c_json_def)

section \<open>Deleting a holding of another subject\<close>

text \<open>
  C4. For \<open>DELETE /api/holdings/:id\<close>, an id that exists but belongs to another subject
  and an id that does not exist give the same outcome: the same reply and an unchanged
  table. With the database up and the subject bound, that reply is 404 with the body
  \<open>Holding not found or unauthorized\<close>.
\<close>

theorem delete_foreign_same_as_missing:
  assumes "\<exists>h\<in>set (holdings d). id_of_text e id1 = Some (hid h)"
      and "\<forall>h\<in>set (holdings d).
             id_of_text e id1 = Some (hid h) \<longrightarrow> d1_bind e userId \<noteq> BoundText (user_id h)"
      and "\<forall>h\<in>set (holdings d). id_of_text e id2 \<noteq> Some (hid h)"
  shows "delete_handler e d userId id1 = delete_handler e d userId id2
         \<and> (\<not> d1_fault e \<and> d1_bind e userId \<noteq> Rejected \<longrightarrow>
              delete_handler e d userId id1 = respond d [] not_found)
         \<and> not_found =
             \<lparr>status = 404, body = JObj [(''error'', JStr ''Holding not found or unauthorized'')]\<rparr>"
proof -
  have 1: "delete_holding e d id1 userId =
           (case d1_bind e userId of Rejected \<Rightarrow> Inl (D1TypeError userId)
            | _ \<Rightarrow> if d1_fault e then Inl D1Fault else Inr (0, d))"
    using assms(2) by (rule delete_no_match)
  have 2: "delete_holding e d id2 userId =
           (case d1_bind e userId of Rejected \<Rightarrow> Inl (D1TypeError userId)
            | _ \<Rightarrow> if d1_fault e then Inl D1Fault else Inr (0, d))"
    using assms(3) by (intro delete_no_match) simp
  have "delete_handler e d userId id1 = delete_handler e d userId id2"
    by (simp only: delete_handler_def 1 2)
  moreover have "\<not> d1_fault e \<and> d1_bind e userId \<noteq> Rejected \<longrightarrow>
              delete_handler e d userId id1 = respond d [] not_found"
    by (cases "d1_bind e userId") (simp_all add: delete_handler_def 1)
  moreover have "not_found =
      \<lparr>status = 404, body = JObj [(''error'', JStr ''Holding not found or unauthorized'')]\<rparr>"
    by (simp add: not_found_def c_json_def)
  ultimately show ?thesis by blast
qed

theorem delete_foreign_same_as_missing_witness:
  "id_of_text env0 ''2'' = Some (hid tsla) \<and> user_id tsla = ''u2''
   \<and> id_of_text env0 ''99'' = Some 99
   \<and> delete_handler env0 db1 (JStr ''u1'') ''2'' = delete_handler env0 db1 (JStr ''u1'') ''99''
   \<and> delete_handler env0 db1 (JStr ''u1'') ''2'' = respond db1 [] not_found"
proof -
  have a: "\<exists>h\<in>set (holdings db1). id_of_text env0 ''2'' = Some (hid h)"
    by (simp add: db1_def env0_def aapl_def tsla_def ctor_def)
  have b: "\<forall>h\<in>set (holdings db1). id_of_text env0 ''2'' = Some (hid h) \<longrightarrow>
             d1_bind env0 (JStr ''u1'') \<noteq> BoundText (user_id h)"
    by (simp add: db1_def env0_def aapl_def tsla_def ctor_def)
  have c: "\<forall>h\<in>set (holdings db1). id_of_text env0 ''99'' \<noteq> Some (hid h)"
    by (simp add: db1_def env0_def aapl_def tsla_def ctor_def)
  have f: "\<not> d1_fault env0 \<and> d1_bind env0 (JStr ''u1'') \<noteq> Rejected" by (simp add: env0_def)
  have i: "id_of_text env0 ''2'' = Some (hid tsla) \<and> user_id tsla = ''u2''
           \<and> id_of_text env0 ''99'' = Some 99"
    by (simp add: env0_def tsla_def)
  from delete_foreign_same_as_missing [OF a b c] f i show ?thesis by metis
qed

section \<open>The merge of holdings and prices\<close>

text \<open>
  C5 asks that a matched quote's last price becomes \<open>currentPrice\<close>, a last price of 0
  included. The handler computes \<open>priceMap[symbol]?.last || null\<close>, and 0 is falsy: for
  the holding AAPL and the provider body \<open>[{ticker: "AAPL", last: 0}]\<close> the reply
  carries \<open>currentPrice = null\<close> beside a \<open>priceData\<close> whose \<open>last\<close> is 0.
\<close>

theorem zero_last_price_reported_absent:
  "reply (get_holdings (env_body (JArr [aapl_quote_zero])) db1 (JStr ''u1'')) =
     Inr \<lparr>status = 200,
          body = JArr [JObj (holding_obj aapl @
                    [(''currentPrice'', JNull), (''priceData'', aapl_quote_zero)])]\<rparr>"
proof -
  have pm: "build_priceMap (env_body (JArr [aapl_quote_zero])) (JArr [aapl_quote_zero]) =
            Some \<lparr>own = [(''AAPL'', aapl_quote_zero)], proto = None\<rparr>"
    by (simp add: aapl_quote_zero_def own_get_def pm_put_def empty_pricemap_def)
  have g: "pm_get \<lparr>own = [(''AAPL'', aapl_quote_zero)], proto = None\<rparr> (symbol aapl)
             = aapl_quote_zero"
    by (simp add: pm_get_def aapl_def)
  have e: "enrich \<lparr>own = [(''AAPL'', aapl_quote_zero)], proto = None\<rparr> aapl =
             holding_obj aapl @ [(''currentPrice'', JNull), (''priceData'', aapl_quote_zero)]"
    by (simp add: enrich_fields g) (simp add: aapl_quote_zero_def own_get_def js_or_def)
  have s: "stringify (JObj (holding_obj aapl @
                [(''currentPrice'', JNull), (''priceData'', aapl_quote_zero)]))
         = JObj (holding_obj aapl @ [(''currentPrice'', JNull), (''priceData'', aapl_quote_zero)])"
    by (simp add: holding_obj_def aapl_quote_zero_def)
  show ?thesis
    by (simp add: get_holdings_def select_u1_body fetch_body pm enrichedHoldings_def e
        respond_def c_json_def s del: stringify.simps(1) build_priceMap.simps)
qed

text \<open>
  C6. For every holdings sequence and every price map, the merge returns as many enriched
  holdings as it was given holdings, and the i-th of them is the i-th holding, its six
  columns unchanged, followed by the two price fields looked up under that holding's
  symbol: the order of the input is kept.
\<close>

theorem merge_keeps_length_and_order:
  "length (enrichedHoldings pm hs) = length hs
   \<and> (\<forall>i < length hs.
        enrichedHoldings pm hs ! i =
          holding_obj (hs ! i) @
            [(''currentPrice'', js_or (get_prop_opt (pm_get pm (symbol (hs ! i))) ''last'') JNull),
             (''priceData'', js_or (pm_get pm (symbol (hs ! i))) JNull)])"
  by (simp add: enrichedHoldings_def enrich_fields)

theorem merge_keeps_length_and_order_witness:
  "length (enrichedHoldings pm_tsla [aapl, tsla, msft]) = 3
   \<and> enrichedHoldings pm_tsla [aapl, tsla, msft] ! 0 =
       holding_obj aapl @ [(''currentPrice'', JNull), (''priceData'', JNull)]
   \<and> enrichedHoldings pm_tsla [aapl, tsla, msft] ! 1 =
       holding_obj tsla @ [(''currentPrice'', JNum (Fin 250)), (''priceData'', tsla_quote)]
   \<and> enrichedHoldings pm_tsla [aapl, tsla, msft] ! 2 =
       holding_obj msft @ [(''currentPrice'', JNull), (''priceData'', JNull)]"
proof -
  note m = merge_keeps_length_and_order [of pm_tsla "[aapl, tsla, msft]"]
  from m have len: "length (enrichedHoldings pm_tsla [aapl, tsla, msft]) = 3" by simp
  from m have nth: "\<And>i. i < 3 \<Longrightarrow> enrichedHoldings pm_tsla [aapl, tsla, msft] ! i =
          holding_obj ([aapl, tsla, msft] ! i) @
            [(''currentPrice'',
              js_or (get_prop_opt (pm_get pm_tsla (symbol ([aapl, tsla, msft] ! i))) ''last'') JNull),
             (''priceData'', js_or (pm_get pm_tsla (symbol ([aapl, tsla, msft] ! i))) JNull)]"
    by simp
  have q: "get_prop_opt tsla_quote ''last'' = JNum (Fin 250)" "truthy tsla_quote"
    by (simp_all add: tsla_quote_def own_get_def)
  from nth[of 0] have 0: "enrichedHoldings pm_tsla [aapl, tsla, msft] ! 0 =
       holding_obj aapl @ [(''currentPrice'', JNull), (''priceData'', JNull)]"
    by (simp add: pm_tsla_gets js_or_def)
  from nth[of 1] have 1: "enrichedHoldings pm_tsla [aapl, tsla, msft] ! 1 =
       holding_obj tsla @ [(''currentPrice'', JNum (Fin 250)), (''priceData'', tsla_quote)]"
    by (simp add: pm_tsla_gets js_or_def q)
  from nth[of 2] have 2: "enrichedHoldings pm_tsla [aapl, tsla, msft] ! 2 =
       holding_obj msft @ [(''currentPrice'', JNull), (''priceData'', JNull)]"
    by (simp add: pm_tsla_gets js_or_def)
  from len 0 1 2 show ?thesis by blast
qed

section \<open>Validation before the insert\<close>

text \<open>
  C7. A create request whose \<open>shares\<close> is a number at most 0, or whose \<open>avg_price\<close>
  is a number below 0, is answered with status 400 and an error message, and the database
  is left as it was: every check comes before the insert.
\<close>

theorem create_rejects_nonpositive:
  assumes "(get_prop b ''shares'' = Some (JNum s) \<and> js_le0 s)
         \<or> (get_prop b ''avg_price'' = Some (JNum a) \<and> js_lt0 a)"
  shows "\<exists>msg. create_holding e d userId (Some b) =
           \<lparr>reply = Inr \<lparr>status = 400, body = JObj [(''error'', JStr msg)]\<rparr>,
            calls = [], db = d\<rparr>"
proof -
  from assms obtain kvs where b: "b = JObj kvs"
    by (cases b) auto
  have r: "\<And>msg. respond d [] (bad_request msg) =
           \<lparr>reply = Inr \<lparr>status = 400, body = JObj [(''error'', JStr msg)]\<rparr>,
            calls = [], db = d\<rparr>"
    by (simp add: respond_def bad_request_def c_json_def)
  from assms show ?thesis
    unfolding b create_holding_def r
    by (cases s; cases a) (auto split: jsval.splits jsnum.splits)
qed

theorem create_rejects_nonpositive_witness:
  "get_prop zero_shares_body ''shares'' = Some (JNum (Fin 0)) \<and> js_le0 (Fin 0)
   \<and> create_holding env0 db1 (JStr ''u1'') (Some zero_shares_body) =
       \<lparr>reply = Inr \<lparr>status = 400,
                     body = JObj [(''error'', JStr ''shares must be greater than 0'')]\<rparr>,
        calls = [], db = db1\<rparr>"
proof -
  have h: "get_prop zero_shares_body ''shares'' = Some (JNum (Fin 0)) \<and> js_le0 (Fin 0)"
    by (simp add: zero_shares_body_def own_get_def)
  then have "(get_prop zero_shares_body ''shares'' = Some (JNum (Fin 0)) \<and> js_le0 (Fin 0))
         \<or> (get_prop zero_shares_body ''avg_price'' = Some (JNum (Fin 150)) \<and> js_lt0 (Fin 150))"
    by blast
  from create_rejects_nonpositive [OF this, of env0 db1 "JStr ''u1''"]
  obtain msg where m: "create_holding env0 db1 (JStr ''u1'') (Some zero_shares_body) =
           \<lparr>reply = Inr \<lparr>status = 400, body = JObj [(''error'', JStr msg)]\<rparr>,
            calls = [], db = db1\<rparr>"
    by blast
  have "create_holding env0 db1 (JStr ''u1'') (Some zero_shares_body) =
       \<lparr>reply = Inr \<lparr>status = 400,
                     body = JObj [(''error'', JStr ''shares must be greater than 0'')]\<rparr>,
        calls = [], db = db1\<rparr>"
    by (simp add: create_holding_def zero_shares_body_def own_get_def respond_def
        bad_request_def c_json_def)
  with h m show ?thesis by simp
qed

section \<open>News\<close>

text \<open>
  C8. When the news provider answers \<open>GET /api/news\<close>'s request with a non-success
  response, the reply is status 500 with the body \<open>{error: "Failed to fetch news"}\<close>; it
  is not an empty list.
\<close>

theorem news_provider_failure_is_500:
  assumes "select_symbols e d userId = Inr syms"
      and "syms \<noteq> []"
      and "fetch e (news_url syms) (provider_auth e) = Some r"
      and "\<not> ok r"
  shows "get_news e d userId =
           \<lparr>reply = Inr \<lparr>status = 500, body = JObj [(''error'', JStr ''Failed to fetch news'')]\<rparr>,
            calls = [Fetch (news_url syms)], db = d\<rparr>"
  using assms by (simp add: get_news_def news_failed_def respond_def c_json_def)

theorem news_provider_failure_is_500_witness:
  "select_symbols env0 db1 (JStr ''u1'') = Inr [''AAPL'']
   \<and> fetch env0 (news_url [''AAPL'']) (provider_auth env0) = Some \<lparr>ok = False, json = None\<rparr>
   \<and> get_news env0 db1 (JStr ''u1'') =
       \<lparr>reply = Inr \<lparr>status = 500, body = JObj [(''error'', JStr ''Failed to fetch news'')]\<rparr>,
        calls = [Fetch ''https://api.tiingo.com/tiingo/news?tickers=AAPL''], db = db1\<rparr>"
proof -
  have f: "fetch env0 (news_url [''AAPL'']) (provider_auth env0) = Some \<lparr>ok = False, json = None\<rparr>"
    by (simp add: env0_def)
  have n: "\<not> ok \<lparr>ok = False, json = None\<rparr>" by simp
  have u: "news_url [''AAPL''] = ''https://api.tiingo.com/tiingo/news?tickers=AAPL''"
    by (simp add: news_url_def)
  from news_provider_failure_is_500 [OF symbols_u1 _ f n] symbols_u1 f u
  show ?thesis by simp
qed

section \<open>A subject without holdings\<close>

text \<open>
  C9. When the subject has no holdings, \<open>GET /api/holdings\<close> and \<open>GET /api/news\<close>
  both reply 200 with the empty list and make no outbound call.
\<close>

theorem empty_holdings_short_circuit:
  assumes "select_holdings e d userId = Inr []"
  shows "get_holdings e d userId =
           \<lparr>reply = Inr \<lparr>status = 200, body = JArr []\<rparr>, calls = [], db = d\<rparr>
       \<and> get_news e d userId =
           \<lparr>reply = Inr \<lparr>status = 200, body = JArr []\<rparr>, calls = [], db = d\<rparr>"
  using assms
  by (simp add: get_holdings_def get_news_def select_symbols_def respond_def c_json_def)

theorem empty_holdings_short_circuit_witness:
  "select_holdings env0 db1 (JStr ''nobody'') = Inr []
   \<and> get_holdings env0 db1 (JStr ''nobody'') =
       \<lparr>reply = Inr \<lparr>status = 200, body = JArr []\<rparr>, calls = [], db = db1\<rparr>
   \<and> get_news env0 db1 (JStr ''nobody'') =
       \<lparr>reply = Inr \<lparr>status = 200, body = JArr []\<rparr>, calls = [], db = db1\<rparr>"
proof -
  have s: "select_holdings env0 db1 (JStr ''nobody'') = Inr []"
    by (simp add: select_holdings_def env0_def db1_def aapl_def tsla_def ctor_def)
  from empty_holdings_short_circuit [OF s] s show ?thesis by simp
qed

section \<open>A provider body that is no array\<close>

text \<open>
  C10 asks that, when the provider answers 200 with a JSON body that is no array, every
  holding of the reply carries \<open>currentPrice = null\<close> and \<open>priceData = null\<close>. The
  price map is then the empty plain object, and a symbol that names a property every
  object inherits is found in it: for a holding with the symbol \<open>constructor\<close>,
  \<open>priceMap[symbol]\<close> is the inherited function, which is truthy and which
  \<open>JSON.stringify\<close> leaves out. The reply is 200, but the holding has no
  \<open>priceData\<close> field.
\<close>

theorem inherited_symbol_loses_priceData:
  "reply (get_holdings (env_body (JObj [(''detail'', JStr ''Not found.'')])) db1 (JStr ''u3'')) =
     Inr \<lparr>status = 200, body = JArr [JObj (holding_obj ctor @ [(''currentPrice'', JNull)])]\<rparr>
   \<and> \<not> has_field (JObj (holding_obj ctor @ [(''currentPrice'', JNull)])) ''priceData''"
proof -
  have g: "pm_get empty_pricemap (symbol ctor) = JFun ''constructor''"
    by (simp add: pm_get_def empty_pricemap_def ctor_def inherited_get_def
        object_prototype_methods_def)
  have e: "enrich empty_pricemap ctor =
             holding_obj ctor @ [(''currentPrice'', JNull), (''priceData'', JFun ''constructor'')]"
    by (simp add: enrich_fields g js_or_def)
  have s: "stringify (JObj (holding_obj ctor @
                [(''currentPrice'', JNull), (''priceData'', JFun ''constructor'')]))
         = JObj (holding_obj ctor @ [(''currentPrice'', JNull)])"
    by (simp add: holding_obj_def)
  have 1: "reply (get_holdings (env_body (JObj [(''detail'', JStr ''Not found.'')])) db1
                   (JStr ''u3'')) =
     Inr \<lparr>status = 200, body = JArr [JObj (holding_obj ctor @ [(''currentPrice'', JNull)])]\<rparr>"
    by (simp add: get_holdings_def select_u3_body fetch_body enrichedHoldings_def e
        respond_def c_json_def s del: stringify.simps(1))
  have 2: "\<not> has_field (JObj (holding_obj ctor @ [(''currentPrice'', JNull)])) ''priceData''"
    by (simp add: has_field_def holding_obj_def)
  from 1 2 show ?thesis by blast
qed

end
